theory Spec2Isabelle
  imports Complex_Main "HOL-Library.Sublist"
begin

section \<open>JavaScript values\<close>

text \<open>
  The repository holds two variants of one Express server: \<^verbatim>\<open>src/server.js\<close> and
  \<^verbatim>\<open>src/unnamed/part_000\<close> (its first line also reads \<^verbatim>\<open>// filename: server.js\<close>).
  Both register one route, \<^verbatim>\<open>POST /api/gemini\<close>, behind the same middleware. The second
  variant reads a fourth request field, \<^verbatim>\<open>options\<close>, and has a different \<^verbatim>\<open>catch\<close> block.

  The handlers work on untyped values: the parsed JSON body, whatever the upstream call
  resolves to, and whatever it throws. The values of the model are data, as a JSON parser
  builds them, with \<^verbatim>\<open>undefined\<close>, \<^verbatim>\<open>NaN\<close> and the infinities added; functions, getters
  and objects with methods of their own are not among them. A number is modelled by its
  mathematical value; the handlers do no arithmetic on numbers, they only test them for
  truthiness and pass them on. A string is a list of characters; an object is the list of
  its properties (the first entry for a name is the one in effect).
\<close>

datatype jsnum = NaN | PosInf | NegInf | Fin rat

datatype jsval =
    JUndefined
  | JNull
  | JBool bool
  | JNum jsnum
  | JStr string
  | JArr "jsval list"
  | JObj "(string \<times> jsval) list"

text \<open>ToBoolean: the falsy values are undefined, null, false, 0, NaN and the empty string.\<close>

fun truthy :: "jsval \<Rightarrow> bool" where
  "truthy JUndefined = False"
| "truthy JNull = False"
| "truthy (JBool b) = b"
| "truthy (JNum n) = (n \<noteq> NaN \<and> n \<noteq> Fin 0)"
| "truthy (JStr s) = (s \<noteq> [])"
| "truthy (JArr xs) = True"
| "truthy (JObj ps) = True"

text \<open>\<^verbatim>\<open>a || b\<close> on operands that are already evaluated.\<close>

definition js_or :: "jsval \<Rightarrow> jsval \<Rightarrow> jsval" where
  "js_or a b = (if truthy a then a else b)"

text \<open>
  An expression either yields a value or throws one. The \<^verbatim>\<open>TypeError\<close>s of the runtime
  are objects with a \<^verbatim>\<open>message\<close>; the wording is the engine's (V8's is used here) and
  no property below depends on it.
\<close>

datatype 'a completion = Normal 'a | Throw jsval

fun and_then :: "'a completion \<Rightarrow> ('a \<Rightarrow> 'b completion) \<Rightarrow> 'b completion" where
  "and_then (Normal v) f = f v"
| "and_then (Throw e) f = Throw e"

definition TypeError :: "string \<Rightarrow> jsval" where
  "TypeError msg = JObj [(''name'', JStr ''TypeError''), (''message'', JStr msg)]"

text \<open>
  \<^verbatim>\<open>v.p\<close>, for the property names the handlers read (\<^verbatim>\<open>text\<close>, \<^verbatim>\<open>message\<close>,
  \<^verbatim>\<open>response\<close>, \<^verbatim>\<open>status\<close>, \<^verbatim>\<open>data\<close>, \<^verbatim>\<open>error\<close>, \<^verbatim>\<open>temperature\<close>,
  \<^verbatim>\<open>maxOutputTokens\<close>): none of them is defined on a built-in prototype of a primitive,
  an array or a plain object, so only an object's own property can answer. Reading a
  property of \<^verbatim>\<open>undefined\<close> or \<^verbatim>\<open>null\<close> throws.
\<close>

fun get_prop :: "jsval \<Rightarrow> string \<Rightarrow> jsval completion" where
  "get_prop JUndefined p =
     Throw (TypeError (''Cannot read properties of undefined (reading '' @ [CHR 0x27] @ p @ [CHR 0x27] @ '')''))"
| "get_prop JNull p =
     Throw (TypeError (''Cannot read properties of null (reading '' @ [CHR 0x27] @ p @ [CHR 0x27] @ '')''))"
| "get_prop (JObj ps) p = Normal (case map_of ps p of None \<Rightarrow> JUndefined | Some v \<Rightarrow> v)"
| "get_prop v p = Normal JUndefined"

text \<open>\<^verbatim>\<open>v?.p\<close>: undefined when \<^verbatim>\<open>v\<close> is undefined or null.\<close>

fun get_optional :: "jsval \<Rightarrow> string \<Rightarrow> jsval" where
  "get_optional JUndefined p = JUndefined"
| "get_optional JNull p = JUndefined"
| "get_optional (JObj ps) p = (case map_of ps p of None \<Rightarrow> JUndefined | Some v \<Rightarrow> v)"
| "get_optional v p = JUndefined"

section \<open>Requests, responses and the upstream call\<close>

text \<open>
  \<^verbatim>\<open>const { prompt, model, isJson, options } = req.body\<close> (line 48): the four fields of
  the body, \<^verbatim>\<open>undefined\<close> for a field that is absent. \<^verbatim>\<open>server.js\<close> binds the first
  three only; a client may still send \<^verbatim>\<open>options\<close>, and the record keeps what the body
  carries. \<^verbatim>\<open>req.body\<close> is what the body parser left: when it is \<^verbatim>\<open>undefined\<close> (no body
  was parsed) or \<^verbatim>\<open>null\<close>, the destructuring throws.
\<close>

record request =
  prompt :: jsval
  model :: jsval
  isJson :: jsval
  options :: jsval

definition destructure :: "jsval \<Rightarrow> request completion" where
  "destructure rbody =
     (if rbody = JUndefined \<or> rbody = JNull
      then Throw (TypeError (''Cannot destructure property '' @ [CHR 0x27] @ ''prompt'' @ [CHR 0x27]
                             @ '' of '' @ [CHR 0x27] @ ''req.body'' @ [CHR 0x27]
                             @ '' as it is '' @ (if rbody = JNull then ''null'' else ''undefined'')
                             @ ''.''))
      else Normal \<lparr>prompt = get_optional rbody ''prompt'',
                   model = get_optional rbody ''model'',
                   isJson = get_optional rbody ''isJson'',
                   options = get_optional rbody ''options''\<rparr>)"

text \<open>
  What a handler hands to Express: the argument of \<^verbatim>\<open>res.status\<close> (200 when it is not
  called) and the argument of \<^verbatim>\<open>res.json\<close>. Serialisation and headers are Express's.
  A status is accepted when it is an integer from 100 to 999; for any other value
  \<^verbatim>\<open>res.status(code).json(...)\<close> throws and nothing is sent.
\<close>

record response =
  status :: jsval
  body :: jsval

text \<open>
  The argument of \<^verbatim>\<open>ai.models.generateContent\<close>. The second variant first builds a
  \<^verbatim>\<open>config\<close> object of three fields and spreads it into the call's \<^verbatim>\<open>config\<close>, next
  to \<^verbatim>\<open>safetySettings\<close>.
\<close>

record merged_config =
  temperature :: jsval
  maxOutputTokens :: jsval
  responseMimeType :: jsval

record gen_config = merged_config +
  safetySettings :: jsval

record gen_params =
  gen_model :: jsval
  contents :: jsval
  config :: gen_config

text \<open>The awaited promise is fulfilled with a value or rejected with one.\<close>

datatype upstream_result = Resolves jsval | Rejects jsval

type_synonym upstream = "gen_params \<Rightarrow> upstream_result"

text \<open>
  What one run of a handler did: the responses it sent, the upstream calls it made, the
  lines it logged with \<^verbatim>\<open>console.error\<close>, and the exception that left the handler, if
  one did.
\<close>

record exchange =
  sent :: "response list"
  calls :: "gen_params list"
  logged :: "jsval list list"
  escaped :: "jsval option"

definition idle :: exchange where
  "idle = \<lparr>sent = [], calls = [], logged = [], escaped = None\<rparr>"

definition res_json :: "jsval \<Rightarrow> jsval \<Rightarrow> exchange \<Rightarrow> exchange" where
  "res_json code payload x = x\<lparr>sent := sent x @ [\<lparr>status = code, body = payload\<rparr>]\<rparr>"

definition valid_status :: "jsval \<Rightarrow> bool" where
  "valid_status code =
     (case code of
        JNum (Fin q) \<Rightarrow> q = of_int \<lfloor>q\<rfloor> \<and> 100 \<le> q \<and> q \<le> 999
      | _ \<Rightarrow> False)"

definition console_error :: "jsval list \<Rightarrow> exchange \<Rightarrow> exchange" where
  "console_error args x = x\<lparr>logged := logged x @ [args]\<rparr>"

definition generateContent :: "upstream \<Rightarrow> gen_params \<Rightarrow> exchange \<Rightarrow> upstream_result \<times> exchange" where
  "generateContent up params x = (up params, x\<lparr>calls := calls x @ [params]\<rparr>)"

definition throw_out :: "jsval \<Rightarrow> exchange \<Rightarrow> exchange" where
  "throw_out e x = x\<lparr>escaped := Some e\<rparr>"

text \<open>
  \<^verbatim>\<open>res.status(code).json(payload)\<close>. The handlers call it outside the \<^verbatim>\<open>try\<close> or
  inside the \<^verbatim>\<open>catch\<close>, so its exception leaves the handler.
\<close>

definition res_status_json :: "jsval \<Rightarrow> jsval \<Rightarrow> exchange \<Rightarrow> exchange" where
  "res_status_json code payload x =
     (if valid_status code then res_json code payload x
      else throw_out (JObj [(''name'', JStr ''RangeError''),
                            (''message'', JStr ''Invalid status code'')]) x)"

definition user_contents :: "jsval \<Rightarrow> jsval" where
  "user_contents p = JArr [JObj [(''role'', JStr ''user''), (''parts'', JArr [JObj [(''text'', p)]])]]"

definition harm :: "string \<Rightarrow> jsval" where
  "harm c = JObj [(''category'', JStr c), (''threshold'', JStr ''BLOCK_MEDIUM_AND_ABOVE'')]"

definition missing_prompt :: jsval where
  "missing_prompt = JObj [(''error'', JStr ''Missing prompt in request body.'')]"

text \<open>
  The \<^verbatim>\<open>try\<close> block of both variants after the call: \<^verbatim>\<open>response.text\<close> is read inside
  the \<^verbatim>\<open>try\<close>, so a rejection and a failed read both reach the \<^verbatim>\<open>catch\<close>.
\<close>

definition awaited_text :: "upstream_result \<Rightarrow> jsval completion" where
  "awaited_text r = (case r of Rejects e \<Rightarrow> Throw e | Resolves resp \<Rightarrow> get_prop resp ''text'')"

section \<open>The handler of \<^verbatim>\<open>server.js\<close>\<close>

text \<open>
  A template literal converts its operand with ToString. Numbers are formatted by the
  runtime (\<^verbatim>\<open>Number::toString\<close>), which is taken as the parameter \<open>n2s\<close>. A plain object
  answers \<^verbatim>\<open>[object Object]\<close> unless an own property shadows \<^verbatim>\<open>toString\<close>: a parsed
  value holds no function, so the conversion then finds no primitive and throws. An array
  joins its elements with commas, \<^verbatim>\<open>undefined\<close> and \<^verbatim>\<open>null\<close> as empty strings.
\<close>

fun ToString :: "(jsnum \<Rightarrow> string) \<Rightarrow> jsval \<Rightarrow> string completion"
  and join_elements :: "(jsnum \<Rightarrow> string) \<Rightarrow> jsval list \<Rightarrow> string completion" where
  "ToString n2s JUndefined = Normal ''undefined''"
| "ToString n2s JNull = Normal ''null''"
| "ToString n2s (JBool b) = Normal (if b then ''true'' else ''false'')"
| "ToString n2s (JNum n) = Normal (n2s n)"
| "ToString n2s (JStr s) = Normal s"
| "ToString n2s (JArr xs) = join_elements n2s xs"
| "ToString n2s (JObj ps) =
     (case map_of ps ''toString'' of
        None \<Rightarrow> Normal ''[object Object]''
      | Some f \<Rightarrow> Throw (TypeError ''Cannot convert object to primitive value''))"
| "join_elements n2s [] = Normal []"
| "join_elements n2s (v # vs) =
     (case (if v = JUndefined \<or> v = JNull then Normal [] else ToString n2s v) of
        Throw e \<Rightarrow> Throw e
      | Normal a \<Rightarrow>
          (if vs = [] then Normal a
           else (case join_elements n2s vs of
                   Throw e \<Rightarrow> Throw e
                 | Normal b \<Rightarrow> Normal (a @ '','' @ b))))"

text \<open>
  \<^verbatim>\<open>error.response && error.response.status ? error.response.status : 500\<close>: the
  conditional takes the whole conjunction as its test.
\<close>

definition statusCode :: "jsval \<Rightarrow> jsval completion" where
  "statusCode err =
     and_then (get_prop err ''response'') (\<lambda>r.
       if truthy r
       then and_then (get_prop r ''status'') (\<lambda>s.
              Normal (if truthy s then s else JNum (Fin 500)))
       else Normal (JNum (Fin 500)))"

text \<open>
  \<^verbatim>\<open>error.response && error.response.data ? error.response.data.error.message
  : 'Internal Server Error'\<close>: \<^verbatim>\<open>data.error\<close> is read without a test.
\<close>

definition errorMessage :: "jsval \<Rightarrow> jsval completion" where
  "errorMessage err =
     and_then (get_prop err ''response'') (\<lambda>r.
       if truthy r
       then and_then (get_prop r ''data'') (\<lambda>d.
              if truthy d
              then and_then (get_prop d ''error'') (\<lambda>e. get_prop e ''message'')
              else Normal (JStr ''Internal Server Error''))
       else Normal (JStr ''Internal Server Error''))"

text \<open>The \<^verbatim>\<open>catch (error)\<close> block of \<^verbatim>\<open>server.js\<close>, lines 83 to 94.\<close>

definition catch_server :: "(jsnum \<Rightarrow> string) \<Rightarrow> jsval \<Rightarrow> exchange \<Rightarrow> exchange" where
  "catch_server n2s err x =
     (case get_prop err ''message'' of
        Throw t \<Rightarrow> throw_out t x
      | Normal m \<Rightarrow>
          let x1 = console_error [JStr ''Gemini API Error:'', m] x in
          (case statusCode err of
             Throw t \<Rightarrow> throw_out t x1
           | Normal sc \<Rightarrow>
               (case errorMessage err of
                  Throw t \<Rightarrow> throw_out t x1
                | Normal em \<Rightarrow>
                    (case ToString n2s em of
                       Throw t \<Rightarrow> throw_out t x1
                     | Normal shown \<Rightarrow>
                         res_status_json sc
                           (JObj [(''error'', JStr (''Failed to call Gemini API: '' @ shown)),
                                  (''message'', em),
                                  (''code'', sc)])
                           x1))))"

text \<open>
  The argument of the upstream call in \<^verbatim>\<open>server.js\<close>, lines 54 to 76: \<^verbatim>\<open>options\<close> is
  not read, the temperature depends on \<^verbatim>\<open>isJson\<close> alone and \<^verbatim>\<open>maxOutputTokens\<close> is the
  constant 2048.
\<close>

definition params_server :: "request \<Rightarrow> gen_params" where
  "params_server req =
     (let temp = (if truthy (isJson req) then JNum (Fin 0.2) else JNum (Fin 0.7));
          mime = (if truthy (isJson req) then JStr ''application/json'' else JStr ''text/plain'');
          settings = JArr [harm ''HARM_CATEGORY_HARASSMENT'']
      in \<lparr>gen_model = js_or (model req) (JStr ''gemini-2.5-flash''),
          contents = user_contents (prompt req),
          config = \<lparr>temperature = temp, maxOutputTokens = JNum (Fin 2048),
                    responseMimeType = mime, safetySettings = settings\<rparr>\<rparr>)"

text \<open>The route handler of \<^verbatim>\<open>server.js\<close>, lines 47 to 95.\<close>

definition handler_server :: "(jsnum \<Rightarrow> string) \<Rightarrow> upstream \<Rightarrow> jsval \<Rightarrow> exchange" where
  "handler_server n2s up rbody =
     (case destructure rbody of
        Throw e \<Rightarrow> throw_out e idle
      | Normal req \<Rightarrow>
          if \<not> truthy (prompt req) then res_status_json (JNum (Fin 400)) missing_prompt idle
          else
            let (r, x1) = generateContent up (params_server req) idle
            in (case awaited_text r of
                  Normal t \<Rightarrow> res_json (JNum (Fin 200)) (JObj [(''text'', t)]) x1
                | Throw err \<Rightarrow> catch_server n2s err x1))"

section \<open>The handler of the second variant\<close>

text \<open>
  \<^verbatim>\<open>String.prototype.includes\<close> is a search for a contiguous run of characters;
  \<^verbatim>\<open>s.split(sep)[0]\<close>, for a separator that is not empty, is \<open>s\<close> up to the first place
  where \<open>sep\<close> starts, or all of \<open>s\<close>; \<^verbatim>\<open>trim\<close> drops white space and line
  terminators at both ends (of those, tab to carriage return, space and no-break space are
  characters of the string type used here).
\<close>

definition String_includes :: "string \<Rightarrow> string \<Rightarrow> bool" where
  "String_includes s sub = sublist sub s"

fun split_first :: "string \<Rightarrow> string \<Rightarrow> string" where
  "split_first sep [] = []"
| "split_first sep (c # cs) = (if prefix sep (c # cs) then [] else c # split_first sep cs)"

definition is_space :: "char \<Rightarrow> bool" where
  "is_space c = (c \<in> set [CHR 0x09, CHR 0x0A, CHR 0x0B, CHR 0x0C, CHR 0x0D, CHR 0x20, CHR 0xA0])"

definition trim :: "string \<Rightarrow> string" where
  "trim s = rev (dropWhile is_space (rev (dropWhile is_space s)))"

text \<open>
  \<^verbatim>\<open>v.includes(s)\<close> and \<^verbatim>\<open>v.split(sep)[0].trim()\<close> on a value of any type. Strings have
  both methods and arrays have \<^verbatim>\<open>includes\<close> (membership); on every other value the
  call throws.
\<close>

definition not_callable :: "jsval \<Rightarrow> string \<Rightarrow> 'a completion" where
  "not_callable v name =
     (case get_prop v name of
        Throw t \<Rightarrow> Throw t
      | Normal f \<Rightarrow> Throw (TypeError (''error.message.'' @ name @ '' is not a function'')))"

definition includes_call :: "jsval \<Rightarrow> string \<Rightarrow> bool completion" where
  "includes_call v s =
     (case v of
        JStr m \<Rightarrow> Normal (String_includes m s)
      | JArr xs \<Rightarrow> Normal (JStr s \<in> set xs)
      | _ \<Rightarrow> not_callable v ''includes'')"

definition split_trim_call :: "jsval \<Rightarrow> string \<Rightarrow> string completion" where
  "split_trim_call v sep =
     (case v of
        JStr m \<Rightarrow> Normal (trim (split_first sep m))
      | _ \<Rightarrow> not_callable v ''split'')"

text \<open>
  \<^verbatim>\<open>error.message.includes('API_KEY_INVALID') ? 'API Key is invalid or not authorized.'
  : error.message.split('at GoogleGenAI')[0].trim() || 'Internal Server Error'\<close>: the
  \<^verbatim>\<open>||\<close> belongs to the second branch.
\<close>

definition apiErrorMessage :: "jsval \<Rightarrow> string completion" where
  "apiErrorMessage err =
     and_then (get_prop err ''message'') (\<lambda>m.
     and_then (includes_call m ''API_KEY_INVALID'') (\<lambda>found.
       if found then Normal ''API Key is invalid or not authorized.''
       else and_then (get_prop err ''message'') (\<lambda>m2.
            and_then (split_trim_call m2 ''at GoogleGenAI'') (\<lambda>short.
              Normal (if short \<noteq> [] then short else ''Internal Server Error'')))))"

text \<open>The \<^verbatim>\<open>catch (error)\<close> block of the second variant, lines 82 to 94.\<close>

definition catch_part000 :: "jsval \<Rightarrow> exchange \<Rightarrow> exchange" where
  "catch_part000 err x =
     (case get_prop err ''message'' of
        Throw t \<Rightarrow> throw_out t x
      | Normal m \<Rightarrow>
          let x1 = console_error [JStr ''Gemini API Error:'', m] x in
          (case apiErrorMessage err of
             Throw t \<Rightarrow> throw_out t x1
           | Normal shown \<Rightarrow>
               res_status_json (JNum (Fin 500))
                 (JObj [(''error'', JStr (''Failed to call Gemini API: '' @ shown)),
                        (''code'', JNum (Fin 500))])
                 x1))"

text \<open>
  The argument of the upstream call in the second variant, lines 54 to 75: a truthy
  \<^verbatim>\<open>options.temperature\<close> or \<^verbatim>\<open>options.maxOutputTokens\<close> wins over the default.
\<close>

definition params_part000 :: "request \<Rightarrow> gen_params" where
  "params_part000 req =
     (let cfg = \<lparr>temperature =
                   js_or (get_optional (options req) ''temperature'')
                     (if truthy (isJson req) then JNum (Fin 0.2) else JNum (Fin 0.7)),
                 maxOutputTokens =
                   js_or (get_optional (options req) ''maxOutputTokens'') (JNum (Fin 2048)),
                 responseMimeType =
                   (if truthy (isJson req) then JStr ''application/json'' else JStr ''text/plain'')\<rparr>;
          settings = JArr [harm ''HARM_CATEGORY_HARASSMENT'',
                           harm ''HARM_CATEGORY_DANGEROUS_CONTENT'']
      in \<lparr>gen_model = js_or (model req) (JStr ''gemini-2.5-flash''),
          contents = user_contents (prompt req),
          config = merged_config.extend cfg (gen_config.fields settings)\<rparr>)"

text \<open>The route handler of the second variant, lines 47 to 95.\<close>

definition handler_part000 :: "upstream \<Rightarrow> jsval \<Rightarrow> exchange" where
  "handler_part000 up rbody =
     (case destructure rbody of
        Throw e \<Rightarrow> throw_out e idle
      | Normal req \<Rightarrow>
          if \<not> truthy (prompt req) then res_status_json (JNum (Fin 400)) missing_prompt idle
          else
            let (r, x1) = generateContent up (params_part000 req) idle
            in (case awaited_text r of
                  Normal t \<Rightarrow> res_json (JNum (Fin 200)) (JObj [(''text'', t)]) x1
                | Throw err \<Rightarrow> catch_part000 err x1))"

section \<open>The rate limiter in front of the route\<close>

text \<open>
  Both variants pass \<^verbatim>\<open>windowMs\<close>, \<^verbatim>\<open>max\<close> and \<^verbatim>\<open>message\<close> to \<^verbatim>\<open>rateLimit\<close> of the
  package \<^verbatim>\<open>express-rate-limit\<close> (lines 27 to 33) and mount the result on
  \<^verbatim>\<open>/api/gemini\<close> before the body parser and the route. The two differ in the message.
\<close>

record limiter_options =
  windowMs :: nat
  max_hits :: nat
  message :: jsval



text \<open>
  Modelled from the spec: the package \<^verbatim>\<open>express-rate-limit\<close> is not part of the sources.
  The spec gives its contract: a count of requests per source IP per fixed window, requests
  over the quota are rejected at once with status 429 and the fixed JSON body and do not
  reach the handler. The store keeps, per IP, the hits of the current window and the time
  (in milliseconds) at which that window ends; a request after the end opens a new window.
\<close>

type_synonym hit_store = "string \<rightharpoonup> nat \<times> nat"

definition rateLimit :: "limiter_options \<Rightarrow> hit_store \<Rightarrow> string \<Rightarrow> nat \<Rightarrow> hit_store \<times> bool" where
  "rateLimit opts store ip now =
     (let (n, reset) =
            (case store ip of
               None \<Rightarrow> (0, now + windowMs opts)
             | Some (n, reset) \<Rightarrow> if now < reset then (n, reset) else (0, now + windowMs opts))
      in (store(ip \<mapsto> (Suc n, reset)), Suc n \<le> max_hits opts))"

text \<open>
  One request from \<open>ip\<close>, with its time of arrival and its body, through the limiter
  and, when it passes, the route handler.
\<close>

definition serve ::
  "limiter_options \<Rightarrow> (jsval \<Rightarrow> exchange) \<Rightarrow> hit_store \<Rightarrow> string \<Rightarrow> nat \<times> jsval
     \<Rightarrow> hit_store \<times> exchange" where
  "serve opts handler store ip arrival =
     (let (store1, pass) = rateLimit opts store ip (fst arrival)
      in (store1,
          if pass then handler (snd arrival)
          else res_json (JNum (Fin 429)) (message opts) idle))"


section \<open>Process start\<close>

text \<open>
  Lines 8 to 15 and the call of \<^verbatim>\<open>app.listen\<close>, the same in both variants. The
  environment maps a variable's name to its value when it is set; what the process does is
  the list of its effects in order. \<^verbatim>\<open>process.exit\<close> ends the run, so nothing follows
  it. The callback of \<^verbatim>\<open>app.listen\<close> only prints a banner.
\<close>

datatype effect = ConsoleError string | Exit int | NewGoogleGenAI jsval | Listen jsval

definition env_value :: "(string \<rightharpoonup> string) \<Rightarrow> string \<Rightarrow> jsval" where
  "env_value env name = (case env name of None \<Rightarrow> JUndefined | Some s \<Rightarrow> JStr s)"

definition PORT :: "(string \<rightharpoonup> string) \<Rightarrow> jsval" where
  "PORT env = js_or (env_value env ''PORT'') (JNum (Fin 3000))"

definition API_KEY :: "(string \<rightharpoonup> string) \<Rightarrow> jsval" where
  "API_KEY env = env_value env ''GEMINI_API_KEY''"

definition start :: "(string \<rightharpoonup> string) \<Rightarrow> effect list" where
  "start env =
     (if \<not> truthy (API_KEY env)
      then [ConsoleError ''FATAL: GEMINI_API_KEY environment variable is not set.'',
            ConsoleError (''Please set the key and restart: export GEMINI_API_KEY=''
                          @ [CHR 0x22] @ ''YOUR_API_KEY'' @ [CHR 0x22]),
            Exit 1]
      else [NewGoogleGenAI (JObj [(''apiKey'', API_KEY env)]), Listen (PORT env)])"

section \<open>Sample inputs\<close>

text \<open>
  A request body with a prompt and nothing else (and the fields line 48 binds from it), and
  three values an upstream call may reject
  with, in the shape the \<^verbatim>\<open>catch\<close> block of \<^verbatim>\<open>server.js\<close> probes
  (\<^verbatim>\<open>error.response.status\<close>, \<^verbatim>\<open>error.response.data.error.message\<close>): a failure that
  carries a status only, one whose \<^verbatim>\<open>data\<close> is an HTML page, and a rejected API key.
\<close>

definition plain_body :: jsval where
  "plain_body = JObj [(''prompt'', JStr ''hi'')]"

definition plain_request :: request where
  "plain_request = \<lparr>prompt = JStr ''hi'', model = JUndefined, isJson = JUndefined, options = JUndefined\<rparr>"

definition unavailable :: jsval where
  "unavailable = JObj [(''message'', JStr ''upstream unavailable''),
                       (''response'', JObj [(''status'', JNum (Fin 503))])]"

definition bad_gateway :: jsval where
  "bad_gateway = JObj [(''message'', JStr ''Request failed with status code 502''),
                       (''response'', JObj [(''status'', JNum (Fin 502)),
                                            (''data'', JStr ''<html>Bad Gateway</html>'')])]"

definition invalid_key :: jsval where
  "invalid_key =
     JObj [(''message'', JStr ''[400 Bad Request] API key not valid. [API_KEY_INVALID]''),
           (''response'',
            JObj [(''status'', JNum (Fin 400)),
                  (''data'',
                   JObj [(''error'',
                          JObj [(''code'', JNum (Fin 400)),
                                (''message'', JStr ''API key not valid. Please pass a valid API key.''),
                                (''status'', JStr ''INVALID_ARGUMENT'')])])])]"

section \<open>Shared lemmas\<close>

lemma valid_status_400: "valid_status (JNum (Fin 400))"
  by (simp add: valid_status_def)

lemma valid_status_500: "valid_status (JNum (Fin 500))"
  by (simp add: valid_status_def)

lemma valid_status_503: "valid_status (JNum (Fin 503))"
  by (simp add: valid_status_def)

lemmas trace_defs = idle_def res_json_def console_error_def generateContent_def throw_out_def
  res_status_json_def valid_status_400 valid_status_500 valid_status_503


lemma destructure_plain: "destructure plain_body = Normal plain_request"
  by (simp add: destructure_def plain_body_def plain_request_def)

lemma get_prop_Normal: "get_prop v p = Normal a \<Longrightarrow> a = get_optional v p"
  by (cases v) auto

lemma and_then_Normal:
  "and_then c f = Normal b \<longleftrightarrow> (\<exists>a. c = Normal a \<and> f a = Normal b)"
  by (cases c) simp_all

lemma type_error_message:
  "get_prop v p = Throw e \<Longrightarrow> \<exists>m. get_prop e ''message'' = Normal (JStr m)"
  by (cases v) (auto simp: TypeError_def)



text \<open>With a prompt, each handler calls the upstream API once, whatever happens next.\<close>

lemma calls_handler_server:
  "destructure rbody = Normal req \<Longrightarrow> truthy (prompt req) \<Longrightarrow>
   calls (handler_server n2s up rbody) = [params_server req]"
  by (simp add: handler_server_def catch_server_def trace_defs Let_def
           split: completion.splits prod.splits)

lemma calls_handler_part000:
  "destructure rbody = Normal req \<Longrightarrow> truthy (prompt req) \<Longrightarrow>
   calls (handler_part000 up rbody) = [params_part000 req]"
  by (simp add: handler_part000_def catch_part000_def trace_defs Let_def
           split: completion.splits prod.splits)

lemma temperature_params_server:
  "temperature (config (params_server req)) =
     (if truthy (isJson req) then JNum (Fin 0.2) else JNum (Fin 0.7))"
  by (simp add: params_server_def)

lemma temperature_params_part000:
  "temperature (config (params_part000 req)) =
     (if truthy (get_optional (options req) ''temperature'')
      then get_optional (options req) ''temperature''
      else if truthy (isJson req) then JNum (Fin 0.2) else JNum (Fin 0.7))"
  by (simp add: params_part000_def js_or_def merged_config.defs gen_config.defs)

lemma maxOutputTokens_params_server:
  "maxOutputTokens (config (params_server req)) = JNum (Fin 2048)"
  by (simp add: params_server_def)

lemma maxOutputTokens_params_part000:
  "maxOutputTokens (config (params_part000 req)) =
     (if truthy (get_optional (options req) ''maxOutputTokens'')
      then get_optional (options req) ''maxOutputTokens''
      else JNum (Fin 2048))"
  by (simp add: params_part000_def js_or_def merged_config.defs gen_config.defs)

subsection \<open>The two \<^verbatim>\<open>catch\<close> blocks\<close>

lemma statusCode_value:
  "statusCode err = Normal sc \<Longrightarrow>
   sc = (let rsp = get_optional err ''response''; s = get_optional rsp ''status''
         in if truthy rsp \<and> truthy s then s else JNum (Fin 500))"
  by (cases err; cases "get_optional err ''response''")
     (auto simp: statusCode_def Let_def split: if_splits option.splits)

lemma errorMessage_value:
  assumes "errorMessage err = Normal em"
  shows "em = (let rsp = get_optional err ''response''; d = get_optional rsp ''data''
               in if truthy rsp \<and> truthy d
                  then get_optional (get_optional d ''error'') ''message''
                  else JStr ''Internal Server Error'')"
proof -
  from assms obtain rsp where r: "get_prop err ''response'' = Normal rsp"
    and rest: "(if truthy rsp
                then and_then (get_prop rsp ''data'') (\<lambda>d.
                       if truthy d
                       then and_then (get_prop d ''error'') (\<lambda>e. get_prop e ''message'')
                       else Normal (JStr ''Internal Server Error''))
                else Normal (JStr ''Internal Server Error'')) = Normal em"
    by (auto simp: errorMessage_def and_then_Normal)
  from r have rsp: "rsp = get_optional err ''response''" by (rule get_prop_Normal)
  show ?thesis
  proof (cases "truthy rsp")
    case False
    with rest rsp show ?thesis by (simp add: Let_def)
  next
    case True
    with rest obtain d where d: "get_prop rsp ''data'' = Normal d"
      and rest2: "(if truthy d
                   then and_then (get_prop d ''error'') (\<lambda>e. get_prop e ''message'')
                   else Normal (JStr ''Internal Server Error'')) = Normal em"
      by (auto simp: and_then_Normal)
    from d have dv: "d = get_optional rsp ''data''" by (rule get_prop_Normal)
    show ?thesis
    proof (cases "truthy d")
      case False
      with rest2 rsp dv show ?thesis by (simp add: Let_def)
    next
      case td: True
      with rest2 obtain e where e: "get_prop d ''error'' = Normal e"
        and m: "get_prop e ''message'' = Normal em"
        by (auto simp: and_then_Normal)
      from e have "e = get_optional d ''error''" by (rule get_prop_Normal)
      moreover from m have "em = get_optional e ''message''" by (rule get_prop_Normal)
      ultimately show ?thesis using True td rsp dv by (simp add: Let_def)
    qed
  qed
qed

lemma catch_server_sent:
  assumes "sent (catch_server n2s err x) = sent x @ [r]"
  shows "statusCode err = Normal (status r) \<and> get_prop (body r) ''code'' = Normal (status r)"
  using assms
  by (auto simp: catch_server_def trace_defs Let_def split: completion.splits if_splits)

lemma catch_server_body:
  assumes "sent (catch_server n2s err x) = sent x @ [r]"
  shows "\<exists>em shown. errorMessage err = Normal em \<and> ToString n2s em = Normal shown \<and>
           body r = JObj [(''error'', JStr (''Failed to call Gemini API: '' @ shown)),
                          (''message'', em), (''code'', status r)]"
  using assms
  by (auto simp: catch_server_def trace_defs Let_def split: completion.splits if_splits)

lemma catch_part000_sent:
  assumes "sent (catch_part000 err x) = sent x @ [r]"
  shows "status r = JNum (Fin 500) \<and> get_prop (body r) ''code'' = Normal (JNum (Fin 500))"
  using assms
  by (auto simp: catch_part000_def trace_defs Let_def split: completion.splits)

lemma handler_server_rejected:
  assumes "destructure rbody = Normal req"
    and "truthy (prompt req)" and "up (params_server req) = Rejects err"
    and "sent (handler_server n2s up rbody) = [r]"
  shows "sent (catch_server n2s err (snd (generateContent up (params_server req) idle))) =
           sent (snd (generateContent up (params_server req) idle)) @ [r]"
  using assms by (simp add: handler_server_def awaited_text_def generateContent_def idle_def)

lemma handler_part000_rejected:
  assumes "destructure rbody = Normal req"
    and "truthy (prompt req)" and "up (params_part000 req) = Rejects err"
    and "sent (handler_part000 up rbody) = [r]"
  shows "sent (catch_part000 err (snd (generateContent up (params_part000 req) idle))) =
           sent (snd (generateContent up (params_part000 req) idle)) @ [r]"
  using assms by (simp add: handler_part000_def awaited_text_def generateContent_def idle_def)

lemma fixed_message_has_no_marker:
  "\<not> sublist ''API_KEY_INVALID'' ''Failed to call Gemini API: API Key is invalid or not authorized.''"
  by (simp add: sublist_code(3))

lemma catch_part000_invalid_key:
  assumes "get_prop err ''message'' = Normal mv"
    and "includes_call mv ''API_KEY_INVALID'' = Normal True"
  shows "catch_part000 err x =
           res_status_json (JNum (Fin 500))
             (JObj [(''error'', JStr ''Failed to call Gemini API: API Key is invalid or not authorized.''),
                    (''code'', JNum (Fin 500))])
             (console_error [JStr ''Gemini API Error:'', mv] x)"
  using assms by (simp add: catch_part000_def apiErrorMessage_def)

lemma part000_invalid_key_sanitized:
  assumes "truthy (prompt req)"
    and "up (params_part000 req) = Rejects err"
    and "get_prop err ''message'' = Normal mv"
    and "includes_call mv ''API_KEY_INVALID'' = Normal True"
    and "destructure rbody = Normal req"
  shows "sent (handler_part000 up rbody) =
           [\<lparr>status = JNum (Fin 500),
             body = JObj [(''error'', JStr ''Failed to call Gemini API: API Key is invalid or not authorized.''),
                          (''code'', JNum (Fin 500))]\<rparr>]
       \<and> (\<forall>m. mv = JStr m \<longrightarrow>
             \<not> String_includes ''Failed to call Gemini API: API Key is invalid or not authorized.'' m)"
proof
  show "sent (handler_part000 up rbody) =
           [\<lparr>status = JNum (Fin 500),
             body = JObj [(''error'', JStr ''Failed to call Gemini API: API Key is invalid or not authorized.''),
                          (''code'', JNum (Fin 500))]\<rparr>]"
    using assms
    by (simp add: handler_part000_def awaited_text_def generateContent_def
          catch_part000_invalid_key trace_defs)
next
  show "\<forall>m. mv = JStr m \<longrightarrow>
          \<not> String_includes ''Failed to call Gemini API: API Key is invalid or not authorized.'' m"
  proof (intro allI impI notI)
    fix m
    assume mv: "mv = JStr m"
      and inc: "String_includes ''Failed to call Gemini API: API Key is invalid or not authorized.'' m"
    from assms(4) mv have "sublist ''API_KEY_INVALID'' m"
      by (simp add: includes_call_def String_includes_def)
    moreover from inc
    have "sublist m ''Failed to call Gemini API: API Key is invalid or not authorized.''"
      by (simp add: String_includes_def)
    ultimately
    have "sublist ''API_KEY_INVALID'' ''Failed to call Gemini API: API Key is invalid or not authorized.''"
      by (rule sublist_order.order.trans)
    with fixed_message_has_no_marker show False by blast
  qed
qed

subsection \<open>The handlers on the sample inputs\<close>

lemma server_unavailable:
  "sent (handler_server n2s (\<lambda>p. Rejects unavailable) plain_body) =
     [\<lparr>status = JNum (Fin 503),
       body = JObj [(''error'', JStr ''Failed to call Gemini API: Internal Server Error''),
                    (''message'', JStr ''Internal Server Error''),
                    (''code'', JNum (Fin 503))]\<rparr>]"
  by (simp add: handler_server_def destructure_plain plain_request_def unavailable_def awaited_text_def
        catch_server_def statusCode_def errorMessage_def trace_defs)

lemma part000_unavailable:
  "sent (handler_part000 (\<lambda>p. Rejects unavailable) plain_body) =
     [\<lparr>status = JNum (Fin 500),
       body = JObj [(''error'', JStr ''Failed to call Gemini API: upstream unavailable''),
                    (''code'', JNum (Fin 500))]\<rparr>]"
  by (simp add: handler_part000_def destructure_plain plain_request_def unavailable_def awaited_text_def
        catch_part000_def apiErrorMessage_def includes_call_def split_trim_call_def
        String_includes_def sublist_code(3) trim_def is_space_def trace_defs)

lemma server_invalid_key:
  "sent (handler_server n2s (\<lambda>p. Rejects invalid_key) plain_body) =
     [\<lparr>status = JNum (Fin 400),
       body = JObj [(''error'', JStr ''Failed to call Gemini API: API key not valid. Please pass a valid API key.''),
                    (''message'', JStr ''API key not valid. Please pass a valid API key.''),
                    (''code'', JNum (Fin 400))]\<rparr>]"
  by (simp add: handler_server_def destructure_plain plain_request_def invalid_key_def awaited_text_def
        catch_server_def statusCode_def errorMessage_def trace_defs)

lemma includes_invalid_key:
  "includes_call (JStr ''[400 Bad Request] API key not valid. [API_KEY_INVALID]'') ''API_KEY_INVALID''
     = Normal True"
  by (simp add: includes_call_def String_includes_def sublist_code(3))

subsection \<open>The rate limiter within one window\<close>








text \<open>Requests from other addresses leave an address's record as it is.\<close>

lemma other_address_untouched:
  "other \<noteq> ip \<Longrightarrow> fst (serve opts handler store other a) ip = store ip"
  by (simp add: serve_def rateLimit_def Let_def split: prod.splits option.splits if_splits)

subsection \<open>Where every request gets its one response\<close>

text \<open>
  The second variant answers exactly once whenever the rejected value has a string for its
  \<^verbatim>\<open>message\<close>, as every \<^verbatim>\<open>Error\<close> has; \<^verbatim>\<open>server.js\<close> answers exactly once whenever
  the rejected value is an object without a truthy \<^verbatim>\<open>response\<close>. A fulfilled promise never
  is a problem: a \<^verbatim>\<open>response.text\<close> that cannot be read throws a \<^verbatim>\<open>TypeError\<close> inside the
  \<^verbatim>\<open>try\<close>, and both \<^verbatim>\<open>catch\<close> blocks handle that one.
\<close>

lemma apiErrorMessage_string:
  "get_prop err ''message'' = Normal (JStr m) \<Longrightarrow> \<exists>shown. apiErrorMessage err = Normal shown"
  by (simp add: apiErrorMessage_def includes_call_def split_trim_call_def)

lemma handler_part000_one_response:
  assumes "truthy (prompt req)"
    and "\<And>err. up (params_part000 req) = Rejects err \<Longrightarrow> \<exists>m. get_prop err ''message'' = Normal (JStr m)"
    and "destructure rbody = Normal req"
  shows "length (sent (handler_part000 up rbody)) = 1 \<and> escaped (handler_part000 up rbody) = None"
proof (cases "awaited_text (up (params_part000 req))")
  case (Normal t)
  with assms(1,3) show ?thesis
    by (simp add: handler_part000_def trace_defs)
next
  case (Throw err)
  have "\<exists>m. get_prop err ''message'' = Normal (JStr m)"
  proof (cases "up (params_part000 req)")
    case (Resolves resp)
    with Throw show ?thesis by (simp add: awaited_text_def type_error_message)
  next
    case (Rejects e)
    with Throw assms(2) show ?thesis by (simp add: awaited_text_def)
  qed
  then obtain m where m: "get_prop err ''message'' = Normal (JStr m)" by blast
  from apiErrorMessage_string [OF m] obtain shown where "apiErrorMessage err = Normal shown" by blast
  with assms(1,3) Throw m show ?thesis
    by (simp add: handler_part000_def catch_part000_def trace_defs)
qed

lemma handler_server_one_response:
  assumes "truthy (prompt req)"
    and "\<And>err. up (params_server req) = Rejects err \<Longrightarrow>
           err \<noteq> JUndefined \<and> err \<noteq> JNull \<and> \<not> truthy (get_optional err ''response'')"
    and "destructure rbody = Normal req"
  shows "length (sent (handler_server n2s up rbody)) = 1 \<and> escaped (handler_server n2s up rbody) = None"
proof (cases "awaited_text (up (params_server req))")
  case (Normal t)
  with assms(1,3) show ?thesis
    by (simp add: handler_server_def trace_defs)
next
  case (Throw err)
  have e: "err \<noteq> JUndefined \<and> err \<noteq> JNull \<and> \<not> truthy (get_optional err ''response'')"
  proof (cases "up (params_server req)")
    case (Resolves resp)
    with Throw show ?thesis by (cases resp) (auto simp: awaited_text_def TypeError_def)
  next
    case (Rejects e)
    with Throw assms(2) show ?thesis by (simp add: awaited_text_def)
  qed
  then have "\<exists>m. get_prop err ''message'' = Normal m"
    and "statusCode err = Normal (JNum (Fin 500))"
    and "errorMessage err = Normal (JStr ''Internal Server Error'')"
    by (cases err; auto simp: statusCode_def errorMessage_def split: option.splits)+
  with assms(1,3) Throw show ?thesis
    by (auto simp: handler_server_def catch_server_def trace_defs)
qed

text \<open>
  The second variant loses the response when the rejected value is not an \<^verbatim>\<open>Error\<close>: a
  thrown string has no \<^verbatim>\<open>message\<close>, and \<^verbatim>\<open>undefined.includes\<close> throws inside the
  \<^verbatim>\<open>catch\<close>.
\<close>

lemma part000_catch_throws:
  "handler_part000 (\<lambda>p. Rejects (JStr ''socket hang up'')) plain_body =
     \<lparr>sent = [],
      calls = [params_part000 plain_request],
      logged = [[JStr ''Gemini API Error:'', JUndefined]],
      escaped = Some (TypeError (''Cannot read properties of undefined (reading ''
                                   @ [CHR 0x27] @ ''includes'' @ [CHR 0x27] @ '')''))\<rparr>"
  by (simp add: handler_part000_def destructure_plain plain_request_def awaited_text_def
        catch_part000_def apiErrorMessage_def includes_call_def not_callable_def trace_defs)

section \<open>The claims\<close>




text \<open>
  C2, as the code has it. For every request with a prompt, the second variant passes
  upstream the client's \<^verbatim>\<open>options.temperature\<close> when that is truthy, and otherwise 0.2 when
  \<^verbatim>\<open>isJson\<close> is truthy and 0.7 when it is not; \<^verbatim>\<open>server.js\<close> does not read \<^verbatim>\<open>options\<close>
  and passes 0.2 when \<^verbatim>\<open>isJson\<close> is truthy and 0.7 when it is not.
\<close>

theorem temperature_passed_upstream:
  assumes "destructure rbody = Normal req" and "truthy (prompt req)"
  shows "map (\<lambda>p. temperature (config p)) (calls (handler_part000 up rbody)) =
           [if truthy (get_optional (options req) ''temperature'')
            then get_optional (options req) ''temperature''
            else if truthy (isJson req) then JNum (Fin 0.2) else JNum (Fin 0.7)]
       \<and> map (\<lambda>p. temperature (config p)) (calls (handler_server n2s up rbody)) =
           [if truthy (isJson req) then JNum (Fin 0.2) else JNum (Fin 0.7)]"
  using assms
  by (simp add: calls_handler_part000 calls_handler_server
        temperature_params_part000 temperature_params_server)

text \<open>A request for JSON with \<^verbatim>\<open>options.temperature\<close> 0.9, through both variants.\<close>

theorem temperature_passed_upstream_witness:
  "destructure (JObj [(''prompt'', JStr ''hi''), (''isJson'', JBool True),
                      (''options'', JObj [(''temperature'', JNum (Fin 0.9))])]) =
     Normal \<lparr>prompt = JStr ''hi'', model = JUndefined, isJson = JBool True,
             options = JObj [(''temperature'', JNum (Fin 0.9))]\<rparr>
   \<and> truthy (JStr ''hi'')
   \<and> map (\<lambda>p. temperature (config p))
       (calls (handler_part000 (\<lambda>p. Resolves (JObj [(''text'', JStr ''ok'')]))
          (JObj [(''prompt'', JStr ''hi''), (''isJson'', JBool True),
                 (''options'', JObj [(''temperature'', JNum (Fin 0.9))])]))) = [JNum (Fin 0.9)]
   \<and> map (\<lambda>p. temperature (config p))
       (calls (handler_server (\<lambda>n. []) (\<lambda>p. Resolves (JObj [(''text'', JStr ''ok'')]))
          (JObj [(''prompt'', JStr ''hi''), (''isJson'', JBool True),
                 (''options'', JObj [(''temperature'', JNum (Fin 0.9))])]))) = [JNum (Fin 0.2)]"
proof -
  have d: "destructure (JObj [(''prompt'', JStr ''hi''), (''isJson'', JBool True),
                      (''options'', JObj [(''temperature'', JNum (Fin 0.9))])]) =
     Normal \<lparr>prompt = JStr ''hi'', model = JUndefined, isJson = JBool True,
             options = JObj [(''temperature'', JNum (Fin 0.9))]\<rparr>"
    by (simp add: destructure_def)
  from temperature_passed_upstream
    [OF d, where up = "\<lambda>p. Resolves (JObj [(''text'', JStr ''ok'')])" and n2s = "\<lambda>n. []"] d
  show ?thesis by simp
qed

text \<open>
  In \<^verbatim>\<open>server.js\<close> a request with \<^verbatim>\<open>options.temperature\<close> 0.9 and no \<^verbatim>\<open>isJson\<close> reaches
  the upstream API with temperature 0.7.
\<close>

theorem temperature_option_ignored_by_server_js:
  "map (\<lambda>p. temperature (config p))
     (calls (handler_server (\<lambda>n. []) (\<lambda>p. Resolves (JObj [(''text'', JStr ''ok'')]))
        (JObj [(''prompt'', JStr ''hi''),
               (''options'', JObj [(''temperature'', JNum (Fin 0.9))])]))) = [JNum (Fin 0.7)]
   \<and> JNum (Fin 0.7) \<noteq> JNum (Fin 0.9)"
proof -
  have d: "destructure (JObj [(''prompt'', JStr ''hi''),
               (''options'', JObj [(''temperature'', JNum (Fin 0.9))])]) =
     Normal \<lparr>prompt = JStr ''hi'', model = JUndefined, isJson = JUndefined,
             options = JObj [(''temperature'', JNum (Fin 0.9))]\<rparr>"
    by (simp add: destructure_def)
  show ?thesis
    by (simp add: calls_handler_server [OF d] temperature_params_server)
qed

text \<open>
  C3, at an input where \<^verbatim>\<open>server.js\<close> breaks it. The upstream call rejects with an
  error whose \<^verbatim>\<open>response.data\<close> is an HTML page. The \<^verbatim>\<open>catch\<close> block tests
  \<^verbatim>\<open>error.response\<close> and \<^verbatim>\<open>error.response.data\<close> and then reads
  \<^verbatim>\<open>error.response.data.error.message\<close>; \<^verbatim>\<open>data.error\<close> is undefined, the read throws
  inside the \<^verbatim>\<open>catch\<close>, and the handler ends without having sent a response.
\<close>

theorem server_js_catch_throws:
  "handler_server n2s (\<lambda>p. Rejects bad_gateway) plain_body =
     \<lparr>sent = [],
      calls = [params_server plain_request],
      logged = [[JStr ''Gemini API Error:'', JStr ''Request failed with status code 502'']],
      escaped = Some (TypeError (''Cannot read properties of undefined (reading ''
                                   @ [CHR 0x27] @ ''message'' @ [CHR 0x27] @ '')''))\<rparr>"
  by (simp add: handler_server_def destructure_plain plain_request_def bad_gateway_def awaited_text_def
        catch_server_def statusCode_def errorMessage_def trace_defs)

text \<open>
  C4, as the code has it. In the second variant, when the upstream call rejects with an
  error whose \<^verbatim>\<open>message\<close> includes \<^verbatim>\<open>API_KEY_INVALID\<close>, the response is status 500 with
  the body \<^verbatim>\<open>{error: "Failed to call Gemini API: API Key is invalid or not authorized.",
  code: 500}\<close>, and that \<^verbatim>\<open>error\<close> text does not contain the upstream message.
  \<^verbatim>\<open>server.js\<close> has no such rule: when it sends an error response, the \<^verbatim>\<open>message\<close> field is
  \<^verbatim>\<open>error.response.data.error.message\<close> if \<^verbatim>\<open>error.response\<close> and
  \<^verbatim>\<open>error.response.data\<close> are truthy and \<^verbatim>\<open>Internal Server Error\<close> if not, and the
  \<^verbatim>\<open>error\<close> field is that value as a string after \<^verbatim>\<open>Failed to call Gemini API: \<close>.
\<close>

theorem invalid_key_message:
  assumes "destructure rbody = Normal req" and "truthy (prompt req)"
  shows "(up (params_part000 req) = Rejects err
            \<and> get_prop err ''message'' = Normal mv
            \<and> includes_call mv ''API_KEY_INVALID'' = Normal True \<longrightarrow>
          sent (handler_part000 up rbody) =
            [\<lparr>status = JNum (Fin 500),
              body = JObj [(''error'', JStr ''Failed to call Gemini API: API Key is invalid or not authorized.''),
                           (''code'', JNum (Fin 500))]\<rparr>]
          \<and> (\<forall>m. mv = JStr m \<longrightarrow>
                \<not> String_includes ''Failed to call Gemini API: API Key is invalid or not authorized.'' m))
       \<and> (up (params_server req) = Rejects err \<and> sent (handler_server n2s up rbody) = [r] \<longrightarrow>
          (let rsp = get_optional err ''response''; d = get_optional rsp ''data'';
               em = (if truthy rsp \<and> truthy d
                     then get_optional (get_optional d ''error'') ''message''
                     else JStr ''Internal Server Error'')
           in \<exists>shown. ToString n2s em = Normal shown \<and>
                body r = JObj [(''error'', JStr (''Failed to call Gemini API: '' @ shown)),
                               (''message'', em), (''code'', status r)]))"
proof (intro conjI impI)
  assume h: "up (params_part000 req) = Rejects err
            \<and> get_prop err ''message'' = Normal mv
            \<and> includes_call mv ''API_KEY_INVALID'' = Normal True"
  with assms part000_invalid_key_sanitized [where req = req and up = up and err = err and mv = mv and rbody = rbody]
  show "sent (handler_part000 up rbody) =
            [\<lparr>status = JNum (Fin 500),
              body = JObj [(''error'', JStr ''Failed to call Gemini API: API Key is invalid or not authorized.''),
                           (''code'', JNum (Fin 500))]\<rparr>]"
    by blast
  from h assms part000_invalid_key_sanitized [where req = req and up = up and err = err and mv = mv and rbody = rbody]
  show "\<forall>m. mv = JStr m \<longrightarrow>
          \<not> String_includes ''Failed to call Gemini API: API Key is invalid or not authorized.'' m"
    by blast
next
  assume "up (params_server req) = Rejects err \<and> sent (handler_server n2s up rbody) = [r]"
  then have u: "up (params_server req) = Rejects err"
    and a: "sent (handler_server n2s up rbody) = [r]" by simp_all
  from handler_server_rejected [OF assms u a]
  obtain em shown where em: "errorMessage err = Normal em"
    and shown: "ToString n2s em = Normal shown"
    and b: "body r = JObj [(''error'', JStr (''Failed to call Gemini API: '' @ shown)),
                          (''message'', em), (''code'', status r)]"
    using catch_server_body by blast
  from errorMessage_value [OF em] shown b
  show "let rsp = get_optional err ''response''; d = get_optional rsp ''data'';
            em = (if truthy rsp \<and> truthy d
                  then get_optional (get_optional d ''error'') ''message''
                  else JStr ''Internal Server Error'')
        in \<exists>shown. ToString n2s em = Normal shown \<and>
             body r = JObj [(''error'', JStr (''Failed to call Gemini API: '' @ shown)),
                            (''message'', em), (''code'', status r)]"
    by (simp add: Let_def)
qed

text \<open>The rejected API key, through the second variant.\<close>

theorem invalid_key_message_witness:
  "destructure plain_body = Normal plain_request
   \<and> truthy (prompt plain_request)
   \<and> get_prop invalid_key ''message'' =
       Normal (JStr ''[400 Bad Request] API key not valid. [API_KEY_INVALID]'')
   \<and> includes_call (JStr ''[400 Bad Request] API key not valid. [API_KEY_INVALID]'') ''API_KEY_INVALID''
       = Normal True
   \<and> sent (handler_part000 (\<lambda>p. Rejects invalid_key) plain_body) =
       [\<lparr>status = JNum (Fin 500),
         body = JObj [(''error'', JStr ''Failed to call Gemini API: API Key is invalid or not authorized.''),
                      (''code'', JNum (Fin 500))]\<rparr>]
   \<and> \<not> String_includes ''Failed to call Gemini API: API Key is invalid or not authorized.''
         ''[400 Bad Request] API key not valid. [API_KEY_INVALID]''"
proof -
  have p: "truthy (prompt plain_request)" by (simp add: plain_request_def)
  have g: "get_prop invalid_key ''message'' =
             Normal (JStr ''[400 Bad Request] API key not valid. [API_KEY_INVALID]'')"
    by (simp add: invalid_key_def)
  from invalid_key_message
    [OF destructure_plain p, where up = "\<lambda>p. Rejects invalid_key" and err = invalid_key
       and mv = "JStr ''[400 Bad Request] API key not valid. [API_KEY_INVALID]''"]
    p g includes_invalid_key destructure_plain
  show ?thesis by simp
qed

text \<open>
  The same rejected API key through \<^verbatim>\<open>server.js\<close>: the client reads the upstream's own
  text, with the upstream's status.
\<close>

theorem server_js_shows_upstream_text:
  "includes_call (JStr ''[400 Bad Request] API key not valid. [API_KEY_INVALID]'') ''API_KEY_INVALID''
     = Normal True
   \<and> get_prop invalid_key ''message'' =
       Normal (JStr ''[400 Bad Request] API key not valid. [API_KEY_INVALID]'')
   \<and> sent (handler_server (\<lambda>n. []) (\<lambda>p. Rejects invalid_key) plain_body) =
     [\<lparr>status = JNum (Fin 400),
       body = JObj [(''error'', JStr ''Failed to call Gemini API: API key not valid. Please pass a valid API key.''),
                    (''message'', JStr ''API key not valid. Please pass a valid API key.''),
                    (''code'', JNum (Fin 400))]\<rparr>]"
  by (simp add: server_invalid_key includes_invalid_key) (simp add: invalid_key_def)

text \<open>
  C5. If the upstream call succeeds, the one response is status 200 with a body whose
  \<^verbatim>\<open>text\<close> field is the \<^verbatim>\<open>text\<close> field of the upstream response, unchanged (in both
  variants).
\<close>

theorem upstream_text_verbatim:
  assumes "destructure rbody = Normal req" and "truthy (prompt req)"
    and "get_prop resp ''text'' = Normal t"
  shows "(up (params_server req) = Resolves resp \<longrightarrow>
            sent (handler_server n2s up rbody) =
              [\<lparr>status = JNum (Fin 200), body = JObj [(''text'', t)]\<rparr>])
       \<and> (up (params_part000 req) = Resolves resp \<longrightarrow>
            sent (handler_part000 up rbody) =
              [\<lparr>status = JNum (Fin 200), body = JObj [(''text'', t)]\<rparr>])"
  using assms
  by (simp add: handler_server_def handler_part000_def trace_defs awaited_text_def)

text \<open>An upstream text with white space at both ends comes back as it is.\<close>

theorem upstream_text_verbatim_witness:
  "destructure plain_body = Normal plain_request
   \<and> truthy (prompt plain_request)
   \<and> get_prop (JObj [(''text'', JStr ''  Hello, world  '')]) ''text'' = Normal (JStr ''  Hello, world  '')
   \<and> sent (handler_server (\<lambda>n. []) (\<lambda>p. Resolves (JObj [(''text'', JStr ''  Hello, world  '')]))
        plain_body) =
       [\<lparr>status = JNum (Fin 200), body = JObj [(''text'', JStr ''  Hello, world  '')]\<rparr>]
   \<and> sent (handler_part000 (\<lambda>p. Resolves (JObj [(''text'', JStr ''  Hello, world  '')]))
        plain_body) =
       [\<lparr>status = JNum (Fin 200), body = JObj [(''text'', JStr ''  Hello, world  '')]\<rparr>]"
proof -
  have p: "truthy (prompt plain_request)" by (simp add: plain_request_def)
  have g: "get_prop (JObj [(''text'', JStr ''  Hello, world  '')]) ''text'' =
             Normal (JStr ''  Hello, world  '')"
    by simp
  from upstream_text_verbatim
    [OF destructure_plain p g,
       where up = "\<lambda>p. Resolves (JObj [(''text'', JStr ''  Hello, world  '')])" and n2s = "\<lambda>n. []"]
    destructure_plain p
  show ?thesis by simp
qed

text \<open>
  C6, as the code has it. For every request with a prompt, the second variant passes
  upstream the client's \<^verbatim>\<open>options.maxOutputTokens\<close> when that is truthy and 2048
  otherwise; \<^verbatim>\<open>server.js\<close> does not read \<^verbatim>\<open>options\<close> and always passes 2048.
\<close>

theorem maxOutputTokens_passed_upstream:
  assumes "destructure rbody = Normal req" and "truthy (prompt req)"
  shows "map (\<lambda>p. maxOutputTokens (config p)) (calls (handler_part000 up rbody)) =
           [if truthy (get_optional (options req) ''maxOutputTokens'')
            then get_optional (options req) ''maxOutputTokens''
            else JNum (Fin 2048)]
       \<and> map (\<lambda>p. maxOutputTokens (config p)) (calls (handler_server n2s up rbody)) =
           [JNum (Fin 2048)]"
  using assms
  by (simp add: calls_handler_part000 calls_handler_server
        maxOutputTokens_params_part000 maxOutputTokens_params_server)

text \<open>A request with \<^verbatim>\<open>options.maxOutputTokens\<close> 4096, through both variants.\<close>

theorem maxOutputTokens_passed_upstream_witness:
  "destructure (JObj [(''prompt'', JStr ''hi''),
                      (''options'', JObj [(''maxOutputTokens'', JNum (Fin 4096))])]) =
     Normal \<lparr>prompt = JStr ''hi'', model = JUndefined, isJson = JUndefined,
             options = JObj [(''maxOutputTokens'', JNum (Fin 4096))]\<rparr>
   \<and> truthy (JStr ''hi'')
   \<and> map (\<lambda>p. maxOutputTokens (config p))
       (calls (handler_part000 (\<lambda>p. Resolves (JObj [(''text'', JStr ''ok'')]))
          (JObj [(''prompt'', JStr ''hi''),
                 (''options'', JObj [(''maxOutputTokens'', JNum (Fin 4096))])]))) = [JNum (Fin 4096)]
   \<and> map (\<lambda>p. maxOutputTokens (config p))
       (calls (handler_server (\<lambda>n. []) (\<lambda>p. Resolves (JObj [(''text'', JStr ''ok'')]))
          (JObj [(''prompt'', JStr ''hi''),
                 (''options'', JObj [(''maxOutputTokens'', JNum (Fin 4096))])]))) = [JNum (Fin 2048)]"
proof -
  have d: "destructure (JObj [(''prompt'', JStr ''hi''),
                      (''options'', JObj [(''maxOutputTokens'', JNum (Fin 4096))])]) =
     Normal \<lparr>prompt = JStr ''hi'', model = JUndefined, isJson = JUndefined,
             options = JObj [(''maxOutputTokens'', JNum (Fin 4096))]\<rparr>"
    by (simp add: destructure_def)
  from maxOutputTokens_passed_upstream
    [OF d, where up = "\<lambda>p. Resolves (JObj [(''text'', JStr ''ok'')])" and n2s = "\<lambda>n. []"] d
  show ?thesis by simp
qed

text \<open>
  In \<^verbatim>\<open>server.js\<close> a request with \<^verbatim>\<open>options.maxOutputTokens\<close> 4096 reaches the upstream
  API with 2048.
\<close>

theorem maxOutputTokens_option_ignored_by_server_js:
  "map (\<lambda>p. maxOutputTokens (config p))
     (calls (handler_server (\<lambda>n. []) (\<lambda>p. Resolves (JObj [(''text'', JStr ''ok'')]))
        (JObj [(''prompt'', JStr ''hi''),
               (''options'', JObj [(''maxOutputTokens'', JNum (Fin 4096))])]))) = [JNum (Fin 2048)]
   \<and> JNum (Fin 2048) \<noteq> JNum (Fin 4096)"
proof -
  have d: "destructure (JObj [(''prompt'', JStr ''hi''),
                      (''options'', JObj [(''maxOutputTokens'', JNum (Fin 4096))])]) =
     Normal \<lparr>prompt = JStr ''hi'', model = JUndefined, isJson = JUndefined,
             options = JObj [(''maxOutputTokens'', JNum (Fin 4096))]\<rparr>"
    by (simp add: destructure_def)
  show ?thesis
    by (simp add: calls_handler_server [OF d] maxOutputTokens_params_server)
qed

text \<open>
  C7, as the code has it. When the upstream call rejects and an error response is sent:
  in \<^verbatim>\<open>server.js\<close> its status is \<^verbatim>\<open>error.response.status\<close> if \<^verbatim>\<open>error.response\<close> and
  that status are truthy, and 500 otherwise; in the second variant its status is always
  500. In both, the \<^verbatim>\<open>code\<close> field of the body equals the status.
\<close>

theorem error_status_code:
  assumes "destructure rbody = Normal req" and "truthy (prompt req)"
  shows "(up (params_server req) = Rejects err \<and> sent (handler_server n2s up rbody) = [r] \<longrightarrow>
            status r = (let rsp = get_optional err ''response''; s = get_optional rsp ''status''
                        in if truthy rsp \<and> truthy s then s else JNum (Fin 500))
            \<and> get_prop (body r) ''code'' = Normal (status r))
       \<and> (up (params_part000 req) = Rejects err \<and> sent (handler_part000 up rbody) = [r] \<longrightarrow>
            status r = JNum (Fin 500) \<and> get_prop (body r) ''code'' = Normal (JNum (Fin 500)))"
proof (intro conjI impI)
  assume "up (params_server req) = Rejects err \<and> sent (handler_server n2s up rbody) = [r]"
  then have u: "up (params_server req) = Rejects err"
    and a: "sent (handler_server n2s up rbody) = [r]" by simp_all
  from handler_server_rejected [OF assms u a]
  have s: "statusCode err = Normal (status r) \<and> get_prop (body r) ''code'' = Normal (status r)"
    by (rule catch_server_sent)
  then show "status r = (let rsp = get_optional err ''response''; s = get_optional rsp ''status''
                         in if truthy rsp \<and> truthy s then s else JNum (Fin 500))"
    by (simp add: statusCode_value)
  from s show "get_prop (body r) ''code'' = Normal (status r)" by simp
next
  assume "up (params_part000 req) = Rejects err \<and> sent (handler_part000 up rbody) = [r]"
  then have u: "up (params_part000 req) = Rejects err"
    and a: "sent (handler_part000 up rbody) = [r]" by simp_all
  from handler_part000_rejected [OF assms u a]
  have s: "status r = JNum (Fin 500) \<and> get_prop (body r) ''code'' = Normal (JNum (Fin 500))"
    by (rule catch_part000_sent)
  then show "status r = JNum (Fin 500)" by simp
  from s show "get_prop (body r) ''code'' = Normal (JNum (Fin 500))" by simp
qed

text \<open>An upstream failure that carries status 503, through both variants.\<close>

theorem error_status_code_witness:
  "destructure plain_body = Normal plain_request
   \<and> truthy (prompt plain_request)
   \<and> sent (handler_server (\<lambda>n. []) (\<lambda>p. Rejects unavailable) plain_body) =
       [\<lparr>status = JNum (Fin 503),
         body = JObj [(''error'', JStr ''Failed to call Gemini API: Internal Server Error''),
                      (''message'', JStr ''Internal Server Error''),
                      (''code'', JNum (Fin 503))]\<rparr>]
   \<and> get_optional (get_optional unavailable ''response'') ''status'' = JNum (Fin 503)
   \<and> sent (handler_part000 (\<lambda>p. Rejects unavailable) plain_body) =
       [\<lparr>status = JNum (Fin 500),
         body = JObj [(''error'', JStr ''Failed to call Gemini API: upstream unavailable''),
                      (''code'', JNum (Fin 500))]\<rparr>]"
proof -
  have p: "truthy (prompt plain_request)" by (simp add: plain_request_def)
  have g: "get_optional (get_optional unavailable ''response'') ''status'' = JNum (Fin 503)"
    by (simp add: unavailable_def)
  from error_status_code
    [OF destructure_plain p,
       where up = "\<lambda>p. Rejects unavailable" and err = unavailable and n2s = "\<lambda>n. []"
       and r = "\<lparr>status = JNum (Fin 503),
         body = JObj [(''error'', JStr ''Failed to call Gemini API: Internal Server Error''),
                      (''message'', JStr ''Internal Server Error''),
                      (''code'', JNum (Fin 503))]\<rparr>"]
    error_status_code
    [OF destructure_plain p,
       where up = "\<lambda>p. Rejects unavailable" and err = unavailable and n2s = "\<lambda>n. []"
       and r = "\<lparr>status = JNum (Fin 500),
         body = JObj [(''error'', JStr ''Failed to call Gemini API: upstream unavailable''),
                      (''code'', JNum (Fin 500))]\<rparr>"]
    p g server_unavailable [of "\<lambda>n. []"] part000_unavailable destructure_plain
  show ?thesis by simp
qed

text \<open>
  The second variant answers 500 to an upstream failure that carries status 503, the
  status \<^verbatim>\<open>server.js\<close> recovers from the same error.
\<close>

theorem part000_status_always_500:
  "statusCode unavailable = Normal (JNum (Fin 503))
   \<and> map status (sent (handler_part000 (\<lambda>p. Rejects unavailable) plain_body)) = [JNum (Fin 500)]"
  by (simp add: part000_unavailable) (simp add: statusCode_def unavailable_def)

text \<open>
  C8, as the code has it. If \<^verbatim>\<open>GEMINI_API_KEY\<close> is unset or set to the empty string, the
  process prints two diagnostic lines and exits with status 1 before anything listens; if
  it is set to a string that is not empty, the process goes on to listen.
\<close>

theorem start_needs_api_key:
  "(env ''GEMINI_API_KEY'' = None \<or> env ''GEMINI_API_KEY'' = Some [] \<longrightarrow>
      start env =
        [ConsoleError ''FATAL: GEMINI_API_KEY environment variable is not set.'',
         ConsoleError (''Please set the key and restart: export GEMINI_API_KEY=''
                       @ [CHR 0x22] @ ''YOUR_API_KEY'' @ [CHR 0x22]),
         Exit 1])
   \<and> (\<forall>k. env ''GEMINI_API_KEY'' = Some k \<and> k \<noteq> [] \<longrightarrow>
        start env = [NewGoogleGenAI (JObj [(''apiKey'', JStr k)]), Listen (PORT env)])"
  by (auto simp: start_def API_KEY_def env_value_def)

text \<open>An empty environment, and one with a key and a port.\<close>

theorem start_needs_api_key_witness:
  "start Map.empty =
     [ConsoleError ''FATAL: GEMINI_API_KEY environment variable is not set.'',
      ConsoleError (''Please set the key and restart: export GEMINI_API_KEY=''
                    @ [CHR 0x22] @ ''YOUR_API_KEY'' @ [CHR 0x22]),
      Exit 1]
   \<and> start [''GEMINI_API_KEY'' \<mapsto> ''secret'', ''PORT'' \<mapsto> ''8080''] =
     [NewGoogleGenAI (JObj [(''apiKey'', JStr ''secret'')]), Listen (JStr ''8080'')]"
  using start_needs_api_key [of "Map.empty"]
    start_needs_api_key [of "[''GEMINI_API_KEY'' \<mapsto> ''secret'', ''PORT'' \<mapsto> ''8080'']"]
  by (simp add: PORT_def env_value_def js_or_def)

text \<open>With the variable set to the empty string the process exits and never listens.\<close>

theorem start_with_empty_api_key:
  "[''GEMINI_API_KEY'' \<mapsto> []] ''GEMINI_API_KEY'' = Some []
   \<and> start [''GEMINI_API_KEY'' \<mapsto> []] =
     [ConsoleError ''FATAL: GEMINI_API_KEY environment variable is not set.'',
      ConsoleError (''Please set the key and restart: export GEMINI_API_KEY=''
                    @ [CHR 0x22] @ ''YOUR_API_KEY'' @ [CHR 0x22]),
      Exit 1]"
  by (simp add: start_def API_KEY_def env_value_def)




text \<open>
  C10. A client option equal to 0 counts as absent: for every request with a prompt and
  \<^verbatim>\<open>options.temperature\<close> 0 the temperature passed upstream is the default (0.2 if
  \<^verbatim>\<open>isJson\<close> is truthy, else 0.7), and for every request with a prompt and
  \<^verbatim>\<open>options.maxOutputTokens\<close> 0 the limit passed upstream is 2048 (in both variants);
  each is what the same request without \<^verbatim>\<open>options\<close> gets.
\<close>

theorem zero_option_is_default:
  assumes "destructure rbody = Normal req" and "truthy (prompt req)"
    and "destructure bare = Normal (req\<lparr>options := JUndefined\<rparr>)"
  shows "(get_optional (options req) ''temperature'' = JNum (Fin 0) \<longrightarrow>
            map (\<lambda>p. temperature (config p)) (calls (handler_part000 up rbody)) =
              [if truthy (isJson req) then JNum (Fin 0.2) else JNum (Fin 0.7)]
          \<and> map (\<lambda>p. temperature (config p)) (calls (handler_part000 up rbody)) =
              map (\<lambda>p. temperature (config p)) (calls (handler_part000 up bare))
          \<and> map (\<lambda>p. temperature (config p)) (calls (handler_server n2s up rbody)) =
              [if truthy (isJson req) then JNum (Fin 0.2) else JNum (Fin 0.7)])
       \<and> (get_optional (options req) ''maxOutputTokens'' = JNum (Fin 0) \<longrightarrow>
            map (\<lambda>p. maxOutputTokens (config p)) (calls (handler_part000 up rbody)) = [JNum (Fin 2048)]
          \<and> map (\<lambda>p. maxOutputTokens (config p)) (calls (handler_part000 up rbody)) =
              map (\<lambda>p. maxOutputTokens (config p)) (calls (handler_part000 up bare))
          \<and> map (\<lambda>p. maxOutputTokens (config p)) (calls (handler_server n2s up rbody)) = [JNum (Fin 2048)])"
proof -
  from assms(2) have "truthy (prompt (req\<lparr>options := JUndefined\<rparr>))" by simp
  note bare_calls = calls_handler_part000 [OF assms(3) this]
  show ?thesis
    using assms(1,2)
    by (simp add: calls_handler_part000 calls_handler_server bare_calls
          temperature_params_part000 temperature_params_server
          maxOutputTokens_params_part000 maxOutputTokens_params_server)
qed

text \<open>A request for JSON with both options 0, through the second variant.\<close>

theorem zero_option_is_default_witness:
  "destructure (JObj [(''prompt'', JStr ''hi''), (''isJson'', JBool True),
                      (''options'', JObj [(''temperature'', JNum (Fin 0)),
                                          (''maxOutputTokens'', JNum (Fin 0))])]) =
     Normal \<lparr>prompt = JStr ''hi'', model = JUndefined, isJson = JBool True,
             options = JObj [(''temperature'', JNum (Fin 0)), (''maxOutputTokens'', JNum (Fin 0))]\<rparr>
   \<and> truthy (JStr ''hi'')
   \<and> destructure (JObj [(''prompt'', JStr ''hi''), (''isJson'', JBool True)]) =
     Normal \<lparr>prompt = JStr ''hi'', model = JUndefined, isJson = JBool True, options = JUndefined\<rparr>
   \<and> get_optional (JObj [(''temperature'', JNum (Fin 0)), (''maxOutputTokens'', JNum (Fin 0))])
       ''temperature'' = JNum (Fin 0)
   \<and> get_optional (JObj [(''temperature'', JNum (Fin 0)), (''maxOutputTokens'', JNum (Fin 0))])
       ''maxOutputTokens'' = JNum (Fin 0)
   \<and> map (\<lambda>p. temperature (config p))
       (calls (handler_part000 (\<lambda>p. Resolves (JObj [(''text'', JStr ''ok'')]))
          (JObj [(''prompt'', JStr ''hi''), (''isJson'', JBool True),
                 (''options'', JObj [(''temperature'', JNum (Fin 0)),
                                     (''maxOutputTokens'', JNum (Fin 0))])])))
       = [JNum (Fin 0.2)]
   \<and> map (\<lambda>p. maxOutputTokens (config p))
       (calls (handler_part000 (\<lambda>p. Resolves (JObj [(''text'', JStr ''ok'')]))
          (JObj [(''prompt'', JStr ''hi''), (''isJson'', JBool True),
                 (''options'', JObj [(''temperature'', JNum (Fin 0)),
                                     (''maxOutputTokens'', JNum (Fin 0))])])))
       = [JNum (Fin 2048)]"
proof -
  have d: "destructure (JObj [(''prompt'', JStr ''hi''), (''isJson'', JBool True),
                      (''options'', JObj [(''temperature'', JNum (Fin 0)),
                                          (''maxOutputTokens'', JNum (Fin 0))])]) =
     Normal \<lparr>prompt = JStr ''hi'', model = JUndefined, isJson = JBool True,
             options = JObj [(''temperature'', JNum (Fin 0)), (''maxOutputTokens'', JNum (Fin 0))]\<rparr>"
    by (simp add: destructure_def)
  have p: "truthy (prompt \<lparr>prompt = JStr ''hi'', model = JUndefined, isJson = JBool True,
             options = JObj [(''temperature'', JNum (Fin 0)), (''maxOutputTokens'', JNum (Fin 0))]\<rparr>)"
    by simp
  have e: "destructure (JObj [(''prompt'', JStr ''hi''), (''isJson'', JBool True)]) =
     Normal (\<lparr>prompt = JStr ''hi'', model = JUndefined, isJson = JBool True,
             options = JObj [(''temperature'', JNum (Fin 0)), (''maxOutputTokens'', JNum (Fin 0))]\<rparr>
             \<lparr>options := JUndefined\<rparr>)"
    by (simp add: destructure_def)
  from zero_option_is_default
    [OF d p e, where up = "\<lambda>p. Resolves (JObj [(''text'', JStr ''ok'')])" and n2s = "\<lambda>n. []"] d e
  show ?thesis by simp
qed

end
